theory Spec2Isabelle
  imports Complex_Main "HOL-Library.Monad_Syntax"
begin

section \<open>Frustum side planes (frustum\_math.py)\<close>

text \<open>
  The script computes with numpy arrays of three doubles. The first embedding takes the
  components as real numbers: it is the exact-arithmetic reading of the program, in
  which rounding, overflow and underflow do not occur. The one floating-point effect
  it keeps is the division of a zero vector by its own zero norm, which numpy evaluates
  to NaN in every component (with a warning, no exception); such a value is \<open>None\<close>.
  A second embedding, further down, follows the same lines over a model of the IEEE
  doubles; it serves where the two readings differ.
\<close>

subsection \<open>Vectors and the numpy operations used\<close>

type_synonym vec3 = "real \<times> real \<times> real"

text \<open>A quaternion is the Python list \<open>[x, y, z, w]\<close>, scalar part last.\<close>

type_synonym quat = "real \<times> real \<times> real \<times> real"

fun vadd :: "vec3 \<Rightarrow> vec3 \<Rightarrow> vec3" where
  "vadd (a, b, c) (x, y, z) = (a + x, b + y, c + z)"

text \<open>\<open>v * s\<close> for an array \<open>v\<close> and a scalar \<open>s\<close>.\<close>

fun vscale :: "vec3 \<Rightarrow> real \<Rightarrow> vec3" where
  "vscale (x, y, z) s = (x * s, y * s, z * s)"

text \<open>\<open>v / s\<close> for an array \<open>v\<close> and a scalar \<open>s\<close>.\<close>

fun vdiv :: "vec3 \<Rightarrow> real \<Rightarrow> vec3" where
  "vdiv (x, y, z) s = (x / s, y / s, z / s)"

text \<open>\<open>np.cross\<close> and \<open>np.dot\<close> on arrays of length three.\<close>

fun cross :: "vec3 \<Rightarrow> vec3 \<Rightarrow> vec3" where
  "cross (a, b, c) (x, y, z) = (b * z - c * y, c * x - a * z, a * y - b * x)"

fun dot :: "vec3 \<Rightarrow> vec3 \<Rightarrow> real" where
  "dot (a, b, c) (x, y, z) = a * x + b * y + c * z"

text \<open>\<open>np.linalg.norm\<close>: the Euclidean length.\<close>

definition norm3 :: "vec3 \<Rightarrow> real" where
  "norm3 v = sqrt (dot v v)"

text \<open>
  \<open>v / np.linalg.norm(v)\<close> and \<open>v /= np.linalg.norm(v)\<close> in exact arithmetic. There the
  norm is zero only for the zero vector, where numpy computes 0/0 = NaN in each
  component: the result \<open>None\<close> stands for that NaN-filled array, and every value
  computed from it is NaN-filled as well. In doubles the norm of a non-zero vector can
  also be 0 or infinite (underflow, overflow) and a cross product of nearly parallel
  vectors can cancel to 0; \<open>vdiv_f64\<close> and \<open>norm_f64\<close> below cover those cases.
\<close>

definition normalized :: "vec3 \<Rightarrow> vec3 option" where
  "normalized v = (if norm3 v = 0 then None else Some (vdiv v (norm3 v)))"

text \<open>\<open>np.deg2rad\<close>.\<close>

definition deg2rad :: "real \<Rightarrow> real" where
  "deg2rad x = x * pi / 180"

subsection \<open>The quaternion rotation primitive\<close>

definition from_axis_angle :: "vec3 \<Rightarrow> real \<Rightarrow> quat" where
  "from_axis_angle axis angle =
     (let s = sin (angle / 2); c = cos (angle / 2);
          scalar = c;
          (v0, v1, v2) = vscale axis s
      in (v0, v1, v2, scalar))"

fun mul_quat_vec :: "quat \<Rightarrow> vec3 \<Rightarrow> vec3" where
  "mul_quat_vec (q0, q1, q2, q3) v =
     (let vec = (q0, q1, q2);
          tmp = vadd (cross vec v) (vscale v q3)
      in vadd (vscale (cross vec tmp) 2) v)"

text \<open>The sum of the squares of the four components of a quaternion.\<close>

fun quat_norm_sq :: "quat \<Rightarrow> real" where
  "quat_norm_sq (x, y, z, w) = x\<^sup>2 + y\<^sup>2 + z\<^sup>2 + w\<^sup>2"

subsection \<open>find\_planes\<close>

text \<open>
  The values \<open>find_planes\<close> binds, under the names of the source. The variable \<open>d\<close> is
  assigned twice, at line 110 for the top plane and at line 118 for the bottom plane:
  the two values are the fields \<open>top_d\<close> and \<open>bottom_d\<close>. The corresponding assignments
  for the left and right planes are commented out in the source (lines 125 to 138), so
  there is no field for them.
\<close>

record frustum_locals =
  position :: vec3
  front :: vec3
  up_norm :: vec3
  right :: vec3
  half_fov_rad :: real
  half_fov_h_rad :: real
  top_normal :: vec3
  bottom_normal :: vec3
  left_normal :: vec3
  right_normal :: vec3
  top_d :: real
  bottom_d :: real

text \<open>
  The failure class of the specification. No statement of the source raises it: the
  script has no \<open>raise\<close> and no argument check, so \<open>find_planes\<close> always returns
  (\<open>Inr\<close>).
\<close>

datatype error = InvalidArgument

text \<open>
  The body of \<open>find_planes\<close> in exact arithmetic, without its console output and its
  plotting calls (\<open>find_planes_f64\<close> below is the same body on doubles). The
  Python function ends with \<open>plt.show()\<close> and has no \<open>return\<close> statement; the model
  returns the local bindings at the end of the body, \<open>None\<close> when a normalisation
  produced NaN. The parameters \<open>target\<close> and \<open>up\<close> are the view direction and the world
  up vector; \<open>znear\<close> and \<open>zfar\<close> are accepted and never read. \<open>np.tan\<close> and \<open>np.atan\<close>
  are \<open>tan\<close> and \<open>arctan\<close>: for a field of view strictly between 0 and 180 degrees the
  half angle lies strictly between 0 and \<open>pi / 2\<close>, where the cosine is not zero.
\<close>

definition find_planes ::
  "vec3 \<Rightarrow> vec3 \<Rightarrow> vec3 \<Rightarrow> real \<Rightarrow> real \<Rightarrow> real \<Rightarrow> real \<Rightarrow> error + frustum_locals option" where
  "find_planes eye target up aspect fovy znear zfar = Inr (do {
     let position = eye;
     front \<leftarrow> normalized target;
     up_norm \<leftarrow> normalized up;
     right \<leftarrow> normalized (cross front up_norm);
     let half_fov_rad = deg2rad fovy * 0.5;
     let half_fov_h_rad = arctan (tan half_fov_rad * aspect);
     let first_rotation = from_axis_angle right half_fov_rad;
     let top_direction = mul_quat_vec first_rotation front;
     let second_rotation = from_axis_angle right (- pi / 2);
     top_normal \<leftarrow> normalized (mul_quat_vec second_rotation top_direction);
     let first_rotation = from_axis_angle right (- half_fov_rad);
     let bottom_direction = mul_quat_vec first_rotation front;
     let second_rotation = from_axis_angle right (pi / 2);
     bottom_normal \<leftarrow> normalized (mul_quat_vec second_rotation bottom_direction);
     let left_edge_rotation = from_axis_angle up_norm half_fov_h_rad;
     let left_edge_direction = mul_quat_vec left_edge_rotation front;
     left_normal \<leftarrow> normalized (cross left_edge_direction up_norm);
     let right_edge_rotation = from_axis_angle up_norm (- half_fov_h_rad);
     let right_edge_direction = mul_quat_vec right_edge_rotation front;
     right_normal \<leftarrow> normalized (cross right_edge_direction up_norm);
     let top_d = dot top_normal position;
     let bottom_d = dot bottom_normal position;
     Some \<lparr> position = position, front = front, up_norm = up_norm, right = right,
            half_fov_rad = half_fov_rad, half_fov_h_rad = half_fov_h_rad,
            top_normal = top_normal, bottom_normal = bottom_normal,
            left_normal = left_normal, right_normal = right_normal,
            top_d = top_d, bottom_d = bottom_d \<rparr>
   })"



text \<open>
  The valid inputs of the specification: view direction and world up non-zero and not
  parallel, a positive aspect ratio and a vertical field of view strictly between 0 and
  180 degrees.
\<close>

definition valid_input :: "vec3 \<Rightarrow> vec3 \<Rightarrow> real \<Rightarrow> real \<Rightarrow> bool" where
  "valid_input target up aspect fovy =
     (target \<noteq> (0, 0, 0) \<and> up \<noteq> (0, 0, 0) \<and> cross target up \<noteq> (0, 0, 0) \<and>
      0 < aspect \<and> 0 < fovy \<and> fovy < 180)"

subsection \<open>The two ways from an edge direction to a plane normal\<close>

text \<open>
  The top normal as \<open>find_planes\<close> computes it (lines 64 to 68): the top edge direction
  turned by a further \<open>-pi/2\<close> about \<open>right\<close>, then normalised. The parameters are the
  \<open>right\<close> and \<open>front\<close> vectors and the vertical half angle of the source.
\<close>

definition top_normal_by_rotation :: "vec3 \<Rightarrow> vec3 \<Rightarrow> real \<Rightarrow> vec3 option" where
  "top_normal_by_rotation right_axis front_dir half_angle =
     (let first_rotation = from_axis_angle right_axis half_angle;
          top_direction = mul_quat_vec first_rotation front_dir;
          second_rotation = from_axis_angle right_axis (- pi / 2);
          top_normal = mul_quat_vec second_rotation top_direction
      in normalized top_normal)"


text \<open>The bottom normal as \<open>find_planes\<close> computes it (lines 78 to 82).\<close>

definition bottom_normal_by_rotation :: "vec3 \<Rightarrow> vec3 \<Rightarrow> real \<Rightarrow> vec3 option" where
  "bottom_normal_by_rotation right_axis front_dir half_angle =
     (let first_rotation = from_axis_angle right_axis (- half_angle);
          bottom_direction = mul_quat_vec first_rotation front_dir;
          second_rotation = from_axis_angle right_axis (pi / 2);
          bottom_normal = mul_quat_vec second_rotation bottom_direction
      in normalized bottom_normal)"



text \<open>Two vectors agree within \<open>tol\<close> in every component.\<close>

definition close_to :: "real \<Rightarrow> vec3 \<Rightarrow> vec3 \<Rightarrow> bool" where
  "close_to tol v w =
     (case (v, w) of ((a, b, c), (x, y, z)) \<Rightarrow>
        \<bar>a - x\<bar> \<le> tol \<and> \<bar>b - y\<bar> \<le> tol \<and> \<bar>c - z\<bar> \<le> tol)"

subsection \<open>The same lines in double precision\<close>

text \<open>
  The program computes in IEEE 754 doubles. Where rounding, overflow to infinity and
  0/0 decide what it produces, the real-number definitions above do not follow it, so
  the body of \<open>find_planes\<close> is given a second time over a model of the doubles. A
  double is a finite value (the real number it denotes; the sign of a zero is not
  tracked), plus or minus infinity, or NaN.
\<close>

datatype f64 = Fin real | PInf | NInf | NaN

text \<open>
  Rounding to nearest, ties to even, with a significand of 53 bits and the least
  exponent -1022 (so the subnormal numbers are included). A result whose magnitude
  reaches \<open>2^1024 - 2^970\<close>, half a unit in the last place above the largest double,
  is an infinity.
\<close>

definition overflow_threshold :: real where
  "overflow_threshold = 2 ^ 1024 - 2 ^ 970"

definition round_half_even :: "real \<Rightarrow> int" where
  "round_half_even y =
     (let f = \<lfloor>y\<rfloor> in
      if y - of_int f < 1 / 2 then f
      else if 1 / 2 < y - of_int f then f + 1
      else if even f then f else f + 1)"

definition round_f64 :: "real \<Rightarrow> real" where
  "round_f64 r =
     (if r = 0 then 0
      else let e = max \<lfloor>log 2 \<bar>r\<bar>\<rfloor> (- 1022);
               u = 2 powi (e - 52)
           in of_int (round_half_even (r / u)) * u)"

definition to_f64 :: "real \<Rightarrow> f64" where
  "to_f64 r =
     (if overflow_threshold \<le> \<bar>r\<bar> then (if 0 < r then PInf else NInf)
      else Fin (round_f64 r))"




fun fsign :: "f64 \<Rightarrow> real" where
  "fsign (Fin x) = sgn x"
| "fsign PInf = 1"
| "fsign NInf = - 1"
| "fsign NaN = 0"


fun fdiv :: "f64 \<Rightarrow> f64 \<Rightarrow> f64" where
  "fdiv NaN _ = NaN"
| "fdiv _ NaN = NaN"
| "fdiv (Fin x) (Fin y) =
     (if y = 0 then (if x = 0 then NaN else if 0 < x then PInf else NInf)
      else to_f64 (x / y))"
| "fdiv (Fin x) _ = Fin 0"
| "fdiv a (Fin y) = (if 0 < fsign a * (if y < 0 then - 1 else 1) then PInf else NInf)"
| "fdiv _ _ = NaN"


text \<open>Arrays of three doubles, and a quaternion of four.\<close>

type_synonym fvec = "f64 \<times> f64 \<times> f64"








fun vdiv_f64 :: "fvec \<Rightarrow> f64 \<Rightarrow> fvec" where
  "vdiv_f64 (x, y, z) s = (fdiv x s, fdiv y s, fdiv z s)"











section \<open>Vector algebra\<close>

lemma from_axis_angle_eq:
  "from_axis_angle (x, y, z) t = (x * sin (t / 2), y * sin (t / 2), z * sin (t / 2), cos (t / 2))"
  by (simp add: from_axis_angle_def Let_def)

lemma norm3_unit_iff: "norm3 (x, y, z) = 1 \<longleftrightarrow> x * x + y * y + z * z = 1"
  by (simp add: norm3_def)

lemma dot_self_nonneg: "0 \<le> dot v v"
  by (cases v) simp

lemma dot_self_eq_0_iff: "dot v v = 0 \<longleftrightarrow> v = (0, 0, 0)"
proof (cases v)
  case (fields x y z)
  have "x * x + y * y + z * z = 0 \<longleftrightarrow> x = 0 \<and> y = 0 \<and> z = 0"
    using sum_power2_eq_zero_iff [of x y] sum_power2_ge_zero [of x y]
      zero_le_power2 [of z] power2_eq_square [of x] power2_eq_square [of y]
      power2_eq_square [of z] zero_eq_power2 [of z]
    by (smt (verit))
  then show ?thesis by (simp add: fields)
qed

lemma norm3_eq_0_iff: "norm3 v = 0 \<longleftrightarrow> v = (0, 0, 0)"
  by (simp add: norm3_def dot_self_eq_0_iff)

lemma dot_vdiv: "dot (vdiv v n) (vdiv w n) = dot v w / (n * n)"
  by (cases v; cases w) (simp add: add_divide_distrib)

lemma norm3_vdiv_self:
  assumes "v \<noteq> (0, 0, 0)"
  shows "norm3 (vdiv v (norm3 v)) = 1"
proof -
  have pos: "dot v v \<noteq> 0" using assms by (simp add: dot_self_eq_0_iff)
  have "norm3 v * norm3 v = dot v v"
    using dot_self_nonneg [of v] by (simp add: norm3_def)
  then have "dot (vdiv v (norm3 v)) (vdiv v (norm3 v)) = 1"
    using pos by (simp add: dot_vdiv)
  then show ?thesis by (simp add: norm3_def)
qed

lemma normalized_Some:
  "v \<noteq> (0, 0, 0) \<Longrightarrow> normalized v = Some (vdiv v (norm3 v))"
  by (simp add: normalized_def norm3_eq_0_iff)

lemma normalized_zero: "normalized (0, 0, 0) = None"
  by (simp add: normalized_def norm3_def)

lemma normalized_SomeD:
  assumes "normalized v = Some w"
  shows "v \<noteq> (0, 0, 0)" and "w = vdiv v (norm3 v)" and "norm3 w = 1"
proof -
  show nz: "v \<noteq> (0, 0, 0)" using assms by (auto simp: normalized_zero)
  show w: "w = vdiv v (norm3 v)" using assms nz by (simp add: normalized_Some)
  show "norm3 w = 1" unfolding w by (rule norm3_vdiv_self [OF nz])
qed

lemma rot_dot:
  assumes "(s::real)\<^sup>2 + c\<^sup>2 = 1" "x * x + y * y + z * z = 1"
  shows "dot (mul_quat_vec (x * s, y * s, z * s, c) (p, q, r)) (mul_quat_vec (x * s, y * s, z * s, c) (u, v, w))
       = dot (p, q, r) (u, v, w)"
  using assms apply (simp add: Let_def) apply algebra done

lemma rot_inv:
  assumes "(s::real)\<^sup>2 + c\<^sup>2 = 1" "x * x + y * y + z * z = 1"
  shows "mul_quat_vec (x * (-s), y * (-s), z * (-s), c) (mul_quat_vec (x * s, y * s, z * s, c) (p, q, r))
       = (p, q, r)"
  using assms apply (simp add: Let_def) apply (intro conjI) apply algebra+ done


lemma rot_cross_axis:
  assumes "(s::real)\<^sup>2 + c\<^sup>2 = 1" "x * x + y * y + z * z = 1"
  shows "dot (cross (mul_quat_vec (x * s, y * s, z * s, c) (p, q, r)) (x, y, z))
             (cross (mul_quat_vec (x * s, y * s, z * s, c) (p, q, r)) (x, y, z))
       = dot (cross (p, q, r) (x, y, z)) (cross (p, q, r) (x, y, z))"
  using assms apply (simp add: Let_def) apply algebra done



lemma cross_vdiv: "cross (vdiv v a) (vdiv w b) = vdiv (cross v w) (a * b)"
  by (cases v; cases w) (simp add: diff_divide_distrib)

lemma vdiv_eq_zero_iff: "n \<noteq> 0 \<Longrightarrow> vdiv v n = (0, 0, 0) \<longleftrightarrow> v = (0, 0, 0)"
  by (cases v) simp

lemma sin_cos_half: "(sin (t / 2))\<^sup>2 + (cos (t / 2))\<^sup>2 = (1::real)"
  by simp

lemma rotation_dot:
  assumes "norm3 a = 1"
  shows "dot (mul_quat_vec (from_axis_angle a t) v) (mul_quat_vec (from_axis_angle a t) w) = dot v w"
proof -
  obtain x y z where a: "a = (x, y, z)" by (cases a) auto
  obtain p q r where v: "v = (p, q, r)" by (cases v) auto
  obtain p' q' r' where w: "w = (p', q', r')" by (cases w) auto
  from assms have u: "x * x + y * y + z * z = 1" by (simp add: a norm3_unit_iff)
  show ?thesis unfolding a v w from_axis_angle_eq
    by (rule rot_dot [OF sin_cos_half u])
qed

lemma rotation_norm:
  "norm3 a = 1 \<Longrightarrow> norm3 (mul_quat_vec (from_axis_angle a t) v) = norm3 v"
  by (simp add: norm3_def rotation_dot)

lemma rotation_inverse:
  assumes "norm3 a = 1"
  shows "mul_quat_vec (from_axis_angle a (- t)) (mul_quat_vec (from_axis_angle a t) v) = v"
proof -
  obtain x y z where a: "a = (x, y, z)" by (cases a) auto
  obtain p q r where v: "v = (p, q, r)" by (cases v) auto
  from assms have u: "x * x + y * y + z * z = 1" by (simp add: a norm3_unit_iff)
  have m: "from_axis_angle (x, y, z) (- t)
           = (x * (- sin (t / 2)), y * (- sin (t / 2)), z * (- sin (t / 2)), cos (t / 2))"
    by (simp add: from_axis_angle_eq)
  show ?thesis unfolding a v m from_axis_angle_eq [of x y z t]
    by (rule rot_inv [OF sin_cos_half u])
qed


lemma rotation_cross_axis:
  assumes "norm3 a = 1"
  shows "norm3 (cross (mul_quat_vec (from_axis_angle a t) v) a) = norm3 (cross v a)"
proof -
  obtain x y z where a: "a = (x, y, z)" by (cases a) auto
  obtain p q r where v: "v = (p, q, r)" by (cases v) auto
  from assms have u: "x * x + y * y + z * z = 1" by (simp add: a norm3_unit_iff)
  show ?thesis unfolding a v from_axis_angle_eq norm3_def
    by (simp only: rot_cross_axis [OF sin_cos_half u])
qed




lemma norm3_unit_nonzero: "norm3 v = 1 \<Longrightarrow> v \<noteq> (0, 0, 0)"
  by (auto simp: norm3_def)

lemma find_planes_SomeD:
  assumes "find_planes eye target up aspect fovy znear zfar = Inr (Some l)"
  shows "position l = eye"
    and "normalized target = Some (front l)"
    and "normalized up = Some (up_norm l)"
    and "normalized (cross (front l) (up_norm l)) = Some (right l)"
    and "half_fov_rad l = deg2rad fovy * 0.5"
    and "half_fov_h_rad l = arctan (tan (half_fov_rad l) * aspect)"
    and "normalized (mul_quat_vec (from_axis_angle (right l) (- pi / 2))
           (mul_quat_vec (from_axis_angle (right l) (half_fov_rad l)) (front l))) = Some (top_normal l)"
    and "normalized (mul_quat_vec (from_axis_angle (right l) (pi / 2))
           (mul_quat_vec (from_axis_angle (right l) (- half_fov_rad l)) (front l))) = Some (bottom_normal l)"
    and "normalized (cross (mul_quat_vec (from_axis_angle (up_norm l) (half_fov_h_rad l)) (front l))
           (up_norm l)) = Some (left_normal l)"
    and "normalized (cross (mul_quat_vec (from_axis_angle (up_norm l) (- half_fov_h_rad l)) (front l))
           (up_norm l)) = Some (right_normal l)"
    and "top_d l = dot (top_normal l) eye"
    and "bottom_d l = dot (bottom_normal l) eye"
  using assms by (auto simp: find_planes_def Let_def bind_eq_Some_conv)

lemma find_planes_returns:
  assumes "valid_input target up aspect fovy"
  shows "\<exists>l. find_planes eye target up aspect fovy znear zfar = Inr (Some l)"
proof -
  from assms have t: "target \<noteq> (0, 0, 0)" and u: "up \<noteq> (0, 0, 0)"
    and c: "cross target up \<noteq> (0, 0, 0)"
    by (simp_all add: valid_input_def)
  define f where "f = vdiv target (norm3 target)"
  define w where "w = vdiv up (norm3 up)"
  have nf: "normalized target = Some f" and nw: "normalized up = Some w"
    using t u by (simp_all add: f_def w_def normalized_Some)
  have f1: "norm3 f = 1" and w1: "norm3 w = 1"
    using normalized_SomeD(3) [OF nf] normalized_SomeD(3) [OF nw] by simp_all
  have "norm3 target * norm3 up \<noteq> 0" using t u by (simp add: norm3_eq_0_iff)
  then have cfw: "cross f w \<noteq> (0, 0, 0)"
    using c by (simp add: f_def w_def cross_vdiv vdiv_eq_zero_iff)
  define r where "r = vdiv (cross f w) (norm3 (cross f w))"
  have nr: "normalized (cross f w) = Some r" using cfw by (simp add: r_def normalized_Some)
  have r1: "norm3 r = 1" using normalized_SomeD(3) [OF nr] .
  define h where "h = deg2rad fovy * 0.5"
  define hh where "hh = arctan (tan h * aspect)"
  define tv where "tv = mul_quat_vec (from_axis_angle r (- pi / 2)) (mul_quat_vec (from_axis_angle r h) f)"
  define bv where "bv = mul_quat_vec (from_axis_angle r (pi / 2)) (mul_quat_vec (from_axis_angle r (- h)) f)"
  define lv where "lv = cross (mul_quat_vec (from_axis_angle w hh) f) w"
  define rv where "rv = cross (mul_quat_vec (from_axis_angle w (- hh)) f) w"
  have "norm3 tv = 1" "norm3 bv = 1"
    by (simp_all add: tv_def bv_def rotation_norm r1 f1)
  then have tv: "tv \<noteq> (0, 0, 0)" and bv: "bv \<noteq> (0, 0, 0)"
    by (auto dest: norm3_unit_nonzero)
  have "norm3 lv = norm3 (cross f w)" "norm3 rv = norm3 (cross f w)"
    by (simp_all add: lv_def rv_def rotation_cross_axis w1)
  then have lv: "lv \<noteq> (0, 0, 0)" and rv: "rv \<noteq> (0, 0, 0)"
    using cfw by (auto simp: norm3_eq_0_iff [symmetric])
  have ntv: "normalized tv = Some (vdiv tv (norm3 tv))"
    and nbv: "normalized bv = Some (vdiv bv (norm3 bv))"
    and nlv: "normalized lv = Some (vdiv lv (norm3 lv))"
    and nrv: "normalized rv = Some (vdiv rv (norm3 rv))"
    using tv bv lv rv by (simp_all add: normalized_Some)
  have "\<exists>l. find_planes eye target up aspect fovy znear zfar = Inr (Some l)"
    unfolding find_planes_def Let_def
    using nf nw nr ntv nbv nlv nrv
    unfolding tv_def bv_def lv_def rv_def h_def hh_def
    by simp
  then show ?thesis .
qed



lemma find_planes_top_normal:
  assumes "find_planes eye target up aspect fovy znear zfar = Inr (Some l)"
  shows "top_normal_by_rotation (right l) (front l) (half_fov_rad l) = Some (top_normal l)"
    and "bottom_normal_by_rotation (right l) (front l) (half_fov_rad l) = Some (bottom_normal l)"
  using find_planes_SomeD(7,8) [OF assms]
  by (simp_all add: top_normal_by_rotation_def bottom_normal_by_rotation_def Let_def)

lemma main_input_valid:
  "valid_input (- 0.57735026, - 0.57735026, - 0.57735026) (0, 1, 0) 1.8695229 90"
  by (simp add: valid_input_def)

lemma sq_bounds:
  fixes k :: real
  assumes "0 \<le> k" "k\<^sup>2 = c" "lo\<^sup>2 \<le> c" "c \<le> hi\<^sup>2" "0 \<le> hi"
  shows "lo \<le> k \<and> k \<le> hi"
proof
  have "lo\<^sup>2 \<le> k\<^sup>2" using assms by simp
  then show "lo \<le> k" using assms(1) by (rule power2_le_imp_le)
  have "k\<^sup>2 \<le> hi\<^sup>2" using assms by simp
  then show "k \<le> hi" using assms(5) by (rule power2_le_imp_le)
qed

lemma sc_one:
  "(s::real)\<^sup>2 + c\<^sup>2 = 1 \<Longrightarrow> x * x + y * y + z * z = 1 \<Longrightarrow>
   (x * s)\<^sup>2 + (y * s)\<^sup>2 + (z * s)\<^sup>2 + c\<^sup>2 = 1"
  by algebra

subsection \<open>Double precision: NaN and overflow\<close>







lemma nan_normalised: "vdiv_f64 (NaN, NaN, NaN) s = (NaN, NaN, NaN)"
  by simp







section \<open>Properties of the rotation primitive\<close>

text \<open>
  C10. For a unit-length axis and any angle, the quaternion built by
  \<open>from_axis_angle\<close> has unit norm: the squares of its four components sum to 1.
\<close>

theorem from_axis_angle_unit:
  assumes "norm3 a = 1"
  shows "quat_norm_sq (from_axis_angle a \<theta>) = 1"
proof -
  obtain x y z where a: "a = (x, y, z)" by (cases a) auto
  from assms have u: "x * x + y * y + z * z = 1" by (simp add: a norm3_unit_iff)
  show ?thesis unfolding a from_axis_angle_eq quat_norm_sq.simps
    by (rule sc_one [OF sin_cos_half u])
qed

theorem from_axis_angle_unit_witness:
  "norm3 (0, 0, 1) = 1 \<and> quat_norm_sq (from_axis_angle (0, 0, 1) pi) = 1"
proof -
  have h: "norm3 (0, 0, 1) = 1" by (simp add: norm3_def)
  show ?thesis using h from_axis_angle_unit [OF h, of pi] by blast
qed

text \<open>
  C3. For a unit-length axis \<open>a\<close>, any angle and any vector \<open>v\<close>, rotating \<open>v\<close> with
  the quaternion \<open>from_axis_angle a \<theta>\<close> preserves its Euclidean length (exactly, in real
  arithmetic).
\<close>

theorem mul_quat_vec_preserves_length:
  assumes "norm3 a = 1"
  shows "norm3 (mul_quat_vec (from_axis_angle a \<theta>) v) = norm3 v"
  unfolding norm3_def by (simp only: rotation_dot [OF assms])

theorem mul_quat_vec_preserves_length_witness:
  "norm3 (0, 0, 1) = 1 \<and>
   norm3 (mul_quat_vec (from_axis_angle (0, 0, 1) pi) (1, 2, 3)) = norm3 (1, 2, 3)"
proof -
  have h: "norm3 (0, 0, 1) = 1" by (simp add: norm3_def)
  show ?thesis using h mul_quat_vec_preserves_length [OF h, of pi "(1, 2, 3)"] by blast
qed

text \<open>
  C4. For a unit-length axis \<open>a\<close>, rotating a vector by \<open>\<theta>\<close> about \<open>a\<close> and then by
  \<open>-\<theta>\<close> about \<open>a\<close> gives the vector back.
\<close>

theorem rotate_back_and_forth:
  assumes "norm3 a = 1"
  shows "mul_quat_vec (from_axis_angle a (- \<theta>)) (mul_quat_vec (from_axis_angle a \<theta>) v) = v"
  using assms by (rule rotation_inverse)

theorem rotate_back_and_forth_witness:
  "norm3 (0, 1, 0) = 1 \<and>
   mul_quat_vec (from_axis_angle (0, 1, 0) (- (pi / 3)))
     (mul_quat_vec (from_axis_angle (0, 1, 0) (pi / 3)) (1, 2, 3)) = (1, 2, 3)"
proof -
  have h: "norm3 (0, 1, 0) = 1" by (simp add: norm3_def)
  show ?thesis using h rotate_back_and_forth [OF h, of "pi / 3" "(1, 2, 3)"] by blast
qed



section \<open>Properties of find\_planes\<close>




text \<open>
  C2, as stated: with the zero vector as view direction \<open>find_planes\<close> fails with
  InvalidArgument. This fails on the code: the call raises nothing and returns with
  NaN-filled vectors.
\<close>

theorem zero_view_direction_counterexample:
  "find_planes (10, 10, 10) (0, 0, 0) (0, 1, 0) 1.8695229 90 0.1 100 = Inr None"
  by (simp add: find_planes_def normalized_zero)

text \<open>
  C2, amended: with the zero vector as view direction \<open>find_planes\<close> raises no error,
  whatever the other arguments are: the normalisation of the view direction divides
  zero by zero and the call returns with NaN-filled results.
\<close>

theorem zero_view_direction_returns_nan:
  "find_planes eye (0, 0, 0) up aspect fovy znear zfar = Inr None"
  by (simp add: find_planes_def normalized_zero)

text \<open>
  C6. The result of \<open>find_planes\<close> does not depend on \<open>znear\<close> and \<open>zfar\<close>: two calls
  that differ only in these two arguments give the same normals and offsets.
\<close>

theorem find_planes_ignores_znear_zfar:
  "find_planes eye target up aspect fovy znear zfar
   = find_planes eye target up aspect fovy znear' zfar'"
  by (simp add: find_planes_def)







text \<open>
  C9. At the input of the \<open>__main__\<close> block, eye (10,10,10), view direction
  (-0.57735026,-0.57735026,-0.57735026) and world up (0,1,0), the basis is
  front = (-0.57735,-0.57735,-0.57735), up = (0,1,0) and right = (0.70711, 0, -0.70711),
  each component within half a unit of the fifth decimal place.
\<close>

theorem main_basis:
  "\<exists>l. find_planes (10, 10, 10) (- 0.57735026, - 0.57735026, - 0.57735026) (0, 1, 0)
          1.8695229 90 0.1 100 = Inr (Some l) \<and>
        close_to (5 / 10 ^ 6) (front l) (- 0.57735, - 0.57735, - 0.57735) \<and>
        close_to (5 / 10 ^ 6) (up_norm l) (0, 1, 0) \<and>
        close_to (5 / 10 ^ 6) (right l) (0.70711, 0, - 0.70711)"
proof -
  from find_planes_returns [OF main_input_valid]
  obtain l where l: "find_planes (10, 10, 10) (- 0.57735026, - 0.57735026, - 0.57735026)
      (0, 1, 0) 1.8695229 90 0.1 100 = Inr (Some l)"
    by blast
  note d = find_planes_SomeD [OF l]
  define n where "n = norm3 (- 0.57735026, - 0.57735026, - 0.57735026)"
  have npos: "0 < n"
    unfolding n_def norm3_def by simp
  define g where "g = 0.57735026 / n"
  have gpos: "0 \<le> g" using npos by (simp add: g_def)
  have fr: "front l = (- g, - g, - g)"
    using normalized_SomeD(2) [OF d(2)] by (simp add: n_def g_def)
  have "norm3 (front l) = 1" using d(2) by (rule normalized_SomeD(3))
  then have "g * g + g * g + g * g = 1" by (simp add: fr norm3_unit_iff)
  then have g2: "g\<^sup>2 = 1 / 3" by (simp add: power2_eq_square)
  have gb: "0.577345 \<le> g \<and> g \<le> 0.577355"
    by (rule sq_bounds [OF gpos g2]) (simp_all add: power2_eq_square)
  have up: "up_norm l = (0, 1, 0)"
    using normalized_SomeD(2) [OF d(3)] by (simp add: norm3_def)
  have cr: "cross (front l) (up_norm l) = (g, 0, - g)"
    by (simp add: fr up)
  define m where "m = norm3 (g, 0, - g)"
  have "g \<noteq> 0" using gb by auto
  then have "m \<noteq> 0" by (simp add: m_def norm3_eq_0_iff)
  moreover have "0 \<le> m" by (simp add: m_def norm3_def)
  ultimately have mpos: "0 < m" by simp
  define k where "k = g / m"
  have kpos: "0 \<le> k" using gpos mpos by (simp add: k_def)
  have ri: "right l = (k, 0, - k)"
    using normalized_SomeD(2) [OF d(4)] by (simp add: cr m_def k_def)
  have "norm3 (right l) = 1" using d(4) by (rule normalized_SomeD(3))
  then have "k * k + k * k = 1" by (simp add: ri norm3_unit_iff)
  then have k2: "k\<^sup>2 = 1 / 2" by (simp add: power2_eq_square)
  have kb: "0.707105 \<le> k \<and> k \<le> 0.707115"
    by (rule sq_bounds [OF kpos k2]) (simp_all add: power2_eq_square)
  have "close_to (5 / 10 ^ 6) (front l) (- 0.57735, - 0.57735, - 0.57735)"
  proof -
    have "\<bar>- g - (- 0.57735)\<bar> \<le> 5 / 10 ^ 6"
      using gb by (intro abs_leI) simp_all
    then show ?thesis by (simp only: fr close_to_def prod.case simp_thms)
  qed
  moreover have "close_to (5 / 10 ^ 6) (up_norm l) (0, 1, 0)"
    by (simp add: up close_to_def)
  moreover have "close_to (5 / 10 ^ 6) (right l) (0.70711, 0, - 0.70711)"
  proof -
    have "\<bar>k - 0.70711\<bar> \<le> 5 / 10 ^ 6" "\<bar>- k - (- 0.70711)\<bar> \<le> 5 / 10 ^ 6"
      "\<bar>(0::real) - 0\<bar> \<le> 5 / 10 ^ 6"
      using kb by (intro abs_leI; simp)+
    then show ?thesis by (simp only: ri close_to_def prod.case simp_thms)
  qed
  ultimately show ?thesis using l by blast
qed

end
